theory Spec2Isabelle
  imports Main "HOL-Library.AList"
begin

section \<open>Python values, exceptions and the external collaborators\<close>

text \<open>
  The client of \<^verbatim>\<open>src/core/http.py\<close> passes dynamically typed option bags
  (\<^verbatim>\<open>**kwargs\<close>) around. A value of such a bag is either built from \<^verbatim>\<open>None\<close>,
  booleans, integers, strings, lists and dicts with string keys and accepted by
  \<^verbatim>\<open>orjson.dumps\<close>, and is then kept with that structure (\<open>Ser\<close>); or it is any
  other object (\<open>Obj\<close>): one that \<^verbatim>\<open>orjson.dumps\<close> refuses (bytes, an integer
  beyond 64 bits, a dict that holds such a value, a \<^verbatim>\<open>CaseInsensitiveDict\<close>) or one it
  accepts without it being of that shape (a datetime). Such an object is kept with what
  the client can observe of it: what \<^verbatim>\<open>str()\<close> returns, its truth value, whether
  \<^verbatim>\<open>orjson.dumps\<close> accepts it, and the pairs its \<^verbatim>\<open>items()\<close> yields when it has
  that method. Floats are left out. A string is a Python \<^verbatim>\<open>str\<close> of code points
  below 256, one \<open>char\<close> for each.
\<close>

datatype json =
    JNull
  | JBool bool
  | JInt int
  | JStr string
  | JList "json list"
  | JDict "(string \<times> json) list"

datatype pyval =
    Ser json
  | Obj (obj_str: string) (obj_bool: bool) (obj_dumps: bool)
        (obj_items: "(string \<times> pyval) list option")

text \<open>Python's truth value, as \<^verbatim>\<open>if value:\<close> and \<^verbatim>\<open>not value\<close> read it.\<close>

fun truthy_json :: "json \<Rightarrow> bool" where
  "truthy_json JNull = False"
| "truthy_json (JBool b) = b"
| "truthy_json (JInt n) = (n \<noteq> 0)"
| "truthy_json (JStr s) = (s \<noteq> [])"
| "truthy_json (JList xs) = (xs \<noteq> [])"
| "truthy_json (JDict kvs) = (kvs \<noteq> [])"

fun truthy :: "pyval \<Rightarrow> bool" where
  "truthy (Ser j) = truthy_json j"
| "truthy (Obj s b d its) = b"

definition is_None :: "pyval \<Rightarrow> bool" where
  "is_None v = (v = Ser JNull)"

text \<open>
  \<^verbatim>\<open>value.items()\<close>: the pairs of a dict or of any other object with that method,
  \<open>None\<close> where the attribute lookup raises \<^verbatim>\<open>AttributeError\<close>. The keys are
  strings, as \<^verbatim>\<open>header_set\<close> declares the header names it is given.
\<close>

fun py_items :: "pyval \<Rightarrow> (string \<times> pyval) list option" where
  "py_items (Ser (JDict kvs)) = Some (map (\<lambda>(k, v). (k, Ser v)) kvs)"
| "py_items (Ser _) = None"
| "py_items (Obj s b d its) = its"

text \<open>
  The exceptions that occur. \<^verbatim>\<open>RequestException\<close> stands for every transport-level
  failure of the requests library (connection error, timeout, protocol error);
  \<^verbatim>\<open>JSONDecodeError\<close> is \<^verbatim>\<open>requests.exceptions.JSONDecodeError\<close>, which
  \<^verbatim>\<open>Response.json()\<close> raises and which derives from \<^verbatim>\<open>RequestException\<close>
  (through \<^verbatim>\<open>InvalidJSONError\<close>, requests 2.27 and later). \<^verbatim>\<open>TypeError\<close> is also
  what \<^verbatim>\<open>with None as r:\<close> raises (Python 3.11 and later; \<^verbatim>\<open>AttributeError\<close>
  before), and what a call with an unknown keyword argument raises.
\<close>

datatype exn =
    AssertionError
  | TypeError
  | AttributeError
  | IndexError
  | RequestException
  | JSONDecodeError
  | OtherError
  | ValueError
  | KeyError
  | CookieConflictError

fun is_RequestException :: "exn \<Rightarrow> bool" where
  "is_RequestException RequestException = True"
| "is_RequestException JSONDecodeError = True"
| "is_RequestException _ = False"

subsection \<open>Case-insensitive header mapping\<close>

text \<open>
  \<^verbatim>\<open>str.lower()\<close>, one code point at a time: the upper-case letters below 256 are
  \<^verbatim>\<open>A\<close> to \<^verbatim>\<open>Z\<close> and the code points 192 to 222 without 215, and the
  lower-case letter of each is 32 above it, which is the same code with bit 5 set.
\<close>

definition lower_char :: "char \<Rightarrow> char" where
  "lower_char c =
     (let n = (of_char c :: nat)
      in if (65 \<le> n \<and> n \<le> 90) \<or> (192 \<le> n \<and> n \<le> 222 \<and> n \<noteq> 215)
         then (case c of Char b0 b1 b2 b3 b4 b5 b6 b7 \<Rightarrow> Char b0 b1 b2 b3 b4 True b6 b7)
         else c)"

definition lower :: "string \<Rightarrow> string" where
  "lower s = map lower_char s"

text \<open>
  The session's \<^verbatim>\<open>headers\<close> are a \<^verbatim>\<open>CaseInsensitiveDict\<close> of the requests
  library: an ordered store from the lower-cased key to the pair of the key as last
  written and the value.
\<close>

type_synonym cidict = "(string \<times> (string \<times> pyval)) list"

definition cid_set :: "string \<Rightarrow> pyval \<Rightarrow> cidict \<Rightarrow> cidict" where
  "cid_set k v d = AList.update (lower k) (k, v) d"

definition cid_del :: "string \<Rightarrow> cidict \<Rightarrow> cidict" where
  "cid_del k d = AList.delete (lower k) d"

definition cid_get :: "cidict \<Rightarrow> string \<Rightarrow> pyval option" where
  "cid_get d k = map_option snd (map_of d (lower k))"

definition cid_mem :: "string \<Rightarrow> cidict \<Rightarrow> bool" where
  "cid_mem k d = (cid_get d k \<noteq> None)"

definition cid_items :: "cidict \<Rightarrow> (string \<times> pyval) list" where
  "cid_items d = map snd d"

subsection \<open>Logger and debugger\<close>

text \<open>
  The logger (\<^verbatim>\<open>base/log.py\<close>, not part of the sources at hand) is an external sink;
  all that is kept of it is the sequence of lines it was given.
\<close>

datatype logline = Info int nat string | Exception exn

type_synonym Logger = "logline list"

text \<open>
  The dataclasses of the debug record. First the class statements themselves, as the
  \<^verbatim>\<open>@dataclass\<close> decorator of the standard library processes them when the module
  is loaded: a declaration is the list of its fields, each with the default it states.
  The decorator raises \<^verbatim>\<open>ValueError\<close> for a field whose default is a list or a
  dict (a mutable default), and \<^verbatim>\<open>TypeError\<close> for a field without default after
  one with a default, the inherited fields first.
\<close>

type_synonym field = "string \<times> json option"

fun mutable_default :: "json \<Rightarrow> bool" where
  "mutable_default (JList xs) = True"
| "mutable_default (JDict kvs) = True"
| "mutable_default _ = False"

fun defaults_in_order :: "field list \<Rightarrow> bool \<Rightarrow> bool" where
  "defaults_in_order [] seen_default = True"
| "defaults_in_order ((name, Some d) # fs) seen_default = defaults_in_order fs True"
| "defaults_in_order ((name, None) # fs) seen_default =
     (\<not> seen_default \<and> defaults_in_order fs seen_default)"

definition dataclass :: "field list \<Rightarrow> field list \<Rightarrow> exn + field list" where
  "dataclass base own =
     (if list_ex (\<lambda>(name, d). case d of None \<Rightarrow> False | Some v \<Rightarrow> mutable_default v) own
      then Inl ValueError
      else if \<not> defaults_in_order (base @ own) False then Inl TypeError
      else Inr (base @ own))"

definition AbsHttpData_class :: "exn + field list" where
  "AbsHttpData_class = dataclass [] [(''time_stamp'', None)]"

definition HttpRequest_class :: "exn + field list" where
  "HttpRequest_class =
     (case AbsHttpData_class of
        Inl e \<Rightarrow> Inl e
      | Inr base \<Rightarrow>
          dataclass base
            [(''method'', Some (JStr [])),
             (''url'', Some (JStr [])),
             (''params'', Some (JDict [])),
             (''headers'', Some (JDict [])),
             (''cookies'', Some (JDict []))])"

definition HttpResponse_class :: "exn + field list" where
  "HttpResponse_class =
     (case AbsHttpData_class of
        Inl e \<Rightarrow> Inl e
      | Inr base \<Rightarrow>
          dataclass base
            [(''success'', Some (JBool False)),
             (''code'', Some (JInt 200)),
             (''url'', Some (JStr [])),
             (''headers'', Some (JDict [])),
             (''cookies'', Some (JDict [])),
             (''text'', Some (JStr [])),
             (''json'', Some (JDict []))])"

definition ClientData_class :: "exn + field list" where
  "ClientData_class = dataclass [] [(''req'', None), (''res'', None)]"

text \<open>
  Loading the module runs the four class statements in order and stops at the first
  that raises.
\<close>

definition load_module :: "exn option" where
  "load_module =
     (case AbsHttpData_class of
        Inl e \<Rightarrow> Some e
      | Inr _ \<Rightarrow>
          (case HttpRequest_class of
             Inl e \<Rightarrow> Some e
           | Inr _ \<Rightarrow>
               (case HttpResponse_class of
                  Inl e \<Rightarrow> Some e
                | Inr _ \<Rightarrow>
                    (case ClientData_class of
                       Inl e \<Rightarrow> Some e
                     | Inr _ \<Rightarrow> None))))"

text \<open>
  The methods of \<^verbatim>\<open>Http\<close> and \<^verbatim>\<open>SmartHTTP\<close> below are modelled one by one, as
  they are written, for the calls made on them. The records that follow hold the
  fields the declarations name, and \<open>HttpResponse_default\<close> holds the values the
  declaration of \<^verbatim>\<open>HttpResponse\<close> states, which is what
  \<^verbatim>\<open>HttpResponse(time_stamp=...)\<close> in \<^verbatim>\<open>save_req\<close> asks for; that the class
  statement itself is refused is \<open>HttpResponse_class\<close> above. \<^verbatim>\<open>assert\<close> is
  taken as executed.
\<close>

record AbsHttpData =
  time_stamp :: int

record HttpRequest = AbsHttpData +
  rq_method :: string
  rq_url :: string
  rq_params :: "(string \<times> pyval) list"
  rq_headers :: "(string \<times> pyval) list"
  rq_cookies :: "(string \<times> string) list"

record HttpResponse = AbsHttpData +
  rs_success :: bool
  rs_code :: int
  rs_url :: string
  rs_headers :: "(string \<times> string) list"
  rs_cookies :: "string \<rightharpoonup> string"
  rs_text :: string
  rs_json :: json

definition HttpResponse_default :: "int \<Rightarrow> HttpResponse" where
  "HttpResponse_default ts =
     \<lparr> time_stamp = ts, rs_success = False, rs_code = 200, rs_url = [],
       rs_headers = [], rs_cookies = Map.empty, rs_text = [], rs_json = JDict [] \<rparr>"

record ClientData =
  req_half :: HttpRequest
  res_half :: HttpResponse

text \<open>
  Modelled from the spec: the Debug Recorder (\<^verbatim>\<open>base/debug.py\<close>, whose source is
  missing). It owns a strictly increasing identifier, \<^verbatim>\<open>id_add\<close> steps it, and
  \<^verbatim>\<open>save\<close> persists the given record under the current identifier, replacing what
  was persisted there.
\<close>

record Debugger =
  dbg_id :: nat
  dbg_store :: "nat \<rightharpoonup> ClientData"

definition id_add :: "Debugger \<Rightarrow> Debugger" where
  "id_add d = d\<lparr>dbg_id := Suc (dbg_id d)\<rparr>"

definition save :: "ClientData \<Rightarrow> Debugger \<Rightarrow> Debugger" where
  "save cd d = d\<lparr>dbg_store := (dbg_store d)(dbg_id d \<mapsto> cd)\<rparr>"

subsection \<open>The cookie jar\<close>

text \<open>
  The session's \<^verbatim>\<open>cookies\<close> are a \<^verbatim>\<open>RequestsCookieJar\<close> of the requests
  library, modelled after the library's source as far as the client calls it. The jar
  stores the value of a cookie under its domain, then its path, then its name, each
  level a dict in insertion order; iterating the jar walks the three levels.
\<close>

type_synonym cookie = "string \<times> string \<times> string \<times> string"

type_synonym jar = "(string \<times> (string \<times> (string \<times> string) list) list) list"

definition jar_iter :: "jar \<Rightarrow> cookie list" where
  "jar_iter j =
     concat (map (\<lambda>(dmn, ps).
       concat (map (\<lambda>(path, ns). map (\<lambda>(name, val). (dmn, path, name, val)) ns) ps)) j)"

text \<open>
  \<^verbatim>\<open>_find_no_duplicates(name)\<close>, which is the jar's \<^verbatim>\<open>__getitem__\<close>: a second
  cookie of the name raises \<^verbatim>\<open>CookieConflictError\<close>, and after the walk
  \<^verbatim>\<open>if toReturn: return toReturn\<close> lets an empty value fall through to the
  \<^verbatim>\<open>KeyError\<close> of a missing cookie.
\<close>

fun find_no_duplicates :: "string \<Rightarrow> cookie list \<Rightarrow> string option \<Rightarrow> exn + string" where
  "find_no_duplicates name [] toReturn =
     (case toReturn of
        None \<Rightarrow> Inl KeyError
      | Some v \<Rightarrow> if v \<noteq> [] then Inr v else Inl KeyError)"
| "find_no_duplicates name ((dmn, path, n, v) # cs) toReturn =
     (if n = name
      then (if toReturn \<noteq> None then Inl CookieConflictError
            else find_no_duplicates name cs (Some v))
      else find_no_duplicates name cs toReturn)"

definition jar_getitem :: "jar \<Rightarrow> string \<Rightarrow> exn + string" where
  "jar_getitem j name = find_no_duplicates name (jar_iter j) None"

text \<open>
  \<^verbatim>\<open>dict(jar)\<close>: the jar has \<^verbatim>\<open>keys()\<close>, so \<^verbatim>\<open>dict\<close> reads every key
  through \<^verbatim>\<open>__getitem__\<close> and stops at the first lookup that raises.
\<close>

fun dict_from_keys ::
  "jar \<Rightarrow> string list \<Rightarrow> (string \<times> string) list \<Rightarrow> exn + (string \<times> string) list" where
  "dict_from_keys j [] acc = Inr acc"
| "dict_from_keys j (k # ks) acc =
     (case jar_getitem j k of
        Inl e \<Rightarrow> Inl e
      | Inr v \<Rightarrow> dict_from_keys j ks (AList.update k v acc))"

definition jar_dict :: "jar \<Rightarrow> exn + (string \<times> string) list" where
  "jar_dict j = dict_from_keys j (map (\<lambda>(dmn, path, name, val). name) (jar_iter j)) []"

text \<open>\<^verbatim>\<open>dict(jar.items())\<close>: the pairs of name and value, a later pair replacing an earlier one.\<close>

definition jar_items_dict :: "jar \<Rightarrow> (string \<times> string) list" where
  "jar_items_dict j = fold (\<lambda>(dmn, path, name, val). AList.update name val) (jar_iter j) []"

text \<open>
  \<^verbatim>\<open>set_cookie\<close>: a value that starts and ends with a double quote loses every
  \<^verbatim>\<open>\"\<close> (backslash, double quote) it holds, by \<^verbatim>\<open>str.replace\<close>; then the cookie
  is stored under its domain, path and name.
\<close>

fun remove_escaped_quotes :: "string \<Rightarrow> string" where
  "remove_escaped_quotes (c # d # rest) =
     (if c = CHR 0x5C \<and> d = CHR 0x22 then remove_escaped_quotes rest
      else c # remove_escaped_quotes (d # rest))"
| "remove_escaped_quotes cs = cs"

definition set_cookie :: "cookie \<Rightarrow> jar \<Rightarrow> jar" where
  "set_cookie ck j =
     (case ck of (dmn, path, name, val) \<Rightarrow>
        let v = (if val \<noteq> [] \<and> hd val = CHR 0x22 \<and> last val = CHR 0x22
                 then remove_escaped_quotes val else val);
            c2 = (case map_of j dmn of None \<Rightarrow> [] | Some ps \<Rightarrow> ps);
            c3 = (case map_of c2 path of None \<Rightarrow> [] | Some ns \<Rightarrow> ns)
        in AList.update dmn (AList.update path (AList.update name v c3) c2) j)"

text \<open>\<^verbatim>\<open>remove_cookie_by_name\<close>, over all domains and paths.\<close>

definition remove_cookie_by_name :: "string \<Rightarrow> jar \<Rightarrow> jar" where
  "remove_cookie_by_name name j =
     map (\<lambda>(dmn, ps). (dmn, map (\<lambda>(path, ns). (path, AList.delete name ns)) ps)) j"

text \<open>
  \<^verbatim>\<open>jar.set(name, value)\<close>: \<^verbatim>\<open>None\<close> removes the cookies of that name, any
  other value becomes a cookie for the domain \<^verbatim>\<open>''\<close> and the path \<^verbatim>\<open>/\<close>.
  \<^verbatim>\<open>jar.update(d)\<close> on a dict sets its entries one by one.
\<close>

definition jar_set :: "string \<Rightarrow> string option \<Rightarrow> jar \<Rightarrow> jar" where
  "jar_set name val j =
     (case val of
        None \<Rightarrow> remove_cookie_by_name name j
      | Some v \<Rightarrow> set_cookie ([], ''/'', name, v) j)"

definition jar_update :: "(string \<times> string) list \<Rightarrow> jar \<Rightarrow> jar" where
  "jar_update d j = fold (\<lambda>(name, val). jar_set name (Some val)) d j"

section \<open>The session client \<^verbatim>\<open>Http\<close>\<close>

record Session =
  headers :: cidict
  cookies :: jar
  proxies :: "(string \<times> string) list"

text \<open>
  \<^verbatim>\<open>Session()\<close> of the requests library: the library's default headers (a parameter
  here), an empty cookie jar, no proxies.
\<close>

definition Session_new :: "cidict \<Rightarrow> Session" where
  "Session_new lib_headers = \<lparr> headers = lib_headers, cookies = [], proxies = [] \<rparr>"

record Http =
  user_agent :: string
  proxy_url :: string
  logger :: "Logger option"
  timeout :: int
  debugger :: "Debugger option"
  client :: Session
  data :: "ClientData option"

text \<open>
  \<^verbatim>\<open>Http.__init__\<close>: \<^verbatim>\<open>assert user_agent\<close> rejects the empty string; the bare
  annotation \<^verbatim>\<open>self.data: ClientData\<close> leaves the attribute unset.
\<close>

definition Http_init ::
  "cidict \<Rightarrow> string \<Rightarrow> string \<Rightarrow> int \<Rightarrow> Logger option \<Rightarrow> Debugger option \<Rightarrow> exn + Http" where
  "Http_init lib_headers ua px t lg dbg =
     (if ua = [] then Inl AssertionError
      else
        let c = Session_new lib_headers;
            c = c\<lparr>headers := cid_set ''User-Agent'' (Ser (JStr ua)) (headers c)\<rparr>;
            c = (if px \<noteq> [] then c\<lparr>proxies := [(''http'', px), (''https'', px)]\<rparr> else c)
        in Inr \<lparr> user_agent = ua, proxy_url = px, logger = lg, timeout = t,
                 debugger = dbg, client = c, data = None \<rparr>)"

definition header_set :: "string \<Rightarrow> pyval \<Rightarrow> Http \<Rightarrow> Http" where
  "header_set key val self =
     (if \<not> is_None val
      then self\<lparr>client := (client self)\<lparr>headers := cid_set key val (headers (client self))\<rparr>\<rparr>
      else if cid_mem key (headers (client self))
      then self\<lparr>client := (client self)\<lparr>headers := cid_del key (headers (client self))\<rparr>\<rparr>
      else self)"

definition header_get :: "Http \<Rightarrow> string \<Rightarrow> pyval" where
  "header_get self key =
     (if key \<noteq> [] \<and> cid_mem key (headers (client self))
      then (case cid_get (headers (client self)) key of
              Some v \<Rightarrow> if truthy v then v else Ser (JStr [])
            | None \<Rightarrow> Ser (JStr []))
      else Ser (JStr []))"


text \<open>The two content-type presets, \<^verbatim>\<open>h_data\<close> and \<^verbatim>\<open>h_json\<close>.\<close>

definition h_data :: "bool \<Rightarrow> Http \<Rightarrow> Http" where
  "h_data utf8 self =
     (let v = ''application/x-www-form-urlencoded'';
          v = (if utf8 then v @ ''; charset=UTF-8'' else v)
      in header_set ''Content-Type'' (Ser (JStr v)) self)"

definition h_json :: "bool \<Rightarrow> Http \<Rightarrow> Http" where
  "h_json utf8 self =
     (let v = ''application/json'';
          v = (if utf8 then v @ ''; charset=UTF-8'' else v)
      in header_set ''Content-Type'' (Ser (JStr v)) self)"

subsection \<open>Cookies\<close>

definition cookie_set :: "string \<Rightarrow> string option \<Rightarrow> Http \<Rightarrow> Http" where
  "cookie_set key val self =
     self\<lparr>client := (client self)\<lparr>cookies := jar_set key val (cookies (client self))\<rparr>\<rparr>"

text \<open>
  Modelled from the spec: the cookie persistence file behind \<^verbatim>\<open>IO.load_dict\<close> and
  \<^verbatim>\<open>IO.save_dict\<close> (\<^verbatim>\<open>base/io.py\<close>, whose source is missing), "a flat key-value
  mapping loaded and saved wholesale". The file system maps a path to the mapping
  stored in the file at that path; \<^verbatim>\<open>is_file\<close> holds of the paths that have one.
\<close>

type_synonym files = "string \<rightharpoonup> (string \<times> string) list"

definition is_file :: "files \<Rightarrow> string \<Rightarrow> bool" where
  "is_file fs path = (fs path \<noteq> None)"

definition load_dict :: "files \<Rightarrow> string \<Rightarrow> (string \<times> string) list" where
  "load_dict fs path = (case fs path of None \<Rightarrow> [] | Some m \<Rightarrow> m)"

definition save_dict :: "string \<Rightarrow> (string \<times> string) list \<Rightarrow> files \<Rightarrow> files" where
  "save_dict path m fs = fs(path \<mapsto> m)"

definition cookie_load :: "files \<Rightarrow> string \<Rightarrow> Http \<Rightarrow> Http" where
  "cookie_load fs file_cookie self =
     (if is_file fs file_cookie
      then self\<lparr>client := (client self)
              \<lparr>cookies := jar_update (load_dict fs file_cookie) (cookies (client self))\<rparr>\<rparr>
      else self)"

text \<open>
  \<^verbatim>\<open>cookie_save\<close>: \<^verbatim>\<open>dict(self.client.cookies)\<close> is evaluated first, and
  nothing is written when it raises.
\<close>

definition cookie_save :: "string \<Rightarrow> Http \<Rightarrow> files \<Rightarrow> exn + files" where
  "cookie_save file_cookie self fs =
     (case jar_dict (cookies (client self)) of
        Inl e \<Rightarrow> Inl e
      | Inr d \<Rightarrow> Inr (save_dict file_cookie d fs))"

subsection \<open>Preparing headers\<close>

type_synonym kwargs = "(string \<times> pyval) list"

text \<open>\<^verbatim>\<open>kwargs.get(key)\<close>: \<^verbatim>\<open>None\<close> when the key is absent.\<close>

definition kw_get :: "kwargs \<Rightarrow> string \<Rightarrow> pyval" where
  "kw_get kw k = (case map_of kw k of None \<Rightarrow> Ser JNull | Some v \<Rightarrow> v)"

text \<open>
  \<^verbatim>\<open>prepare_headers\<close>. A \<^verbatim>\<open>headers\<close> option without \<^verbatim>\<open>items()\<close> makes
  the call raise after the preset was written, so the client is returned in both cases.
\<close>

definition prepare_headers :: "kwargs \<Rightarrow> Http \<Rightarrow> exn option \<times> Http" where
  "prepare_headers kw self =
     (let s1 = (if \<not> is_None (kw_get kw ''json'') then h_json True self
                else if \<not> is_None (kw_get kw ''data'') then h_data True self
                else self);
          hs = kw_get kw ''headers''
      in if \<not> is_None hs
         then (case py_items hs of
                 Some kvs \<Rightarrow> (None, fold (\<lambda>(key, val). header_set key val) kvs s1)
               | None \<Rightarrow> (Some AttributeError, s1))
         else (None, s1))"

subsection \<open>The transport and the world around a call\<close>

text \<open>
  \<^verbatim>\<open>requests.Response\<close> as far as the client reads it. \<^verbatim>\<open>r_cookies\<close> is the
  mapping its cookies' \<^verbatim>\<open>items()\<close> make, \<^verbatim>\<open>r_json\<close> is the value
  the body decodes to as JSON, \<^verbatim>\<open>None\<close> when the body is not valid JSON;
  \<^verbatim>\<open>ok\<close> is also the response's truth value.
\<close>

record Response =
  status_code :: int
  ok :: bool
  r_url :: string
  r_text :: string
  r_headers :: "(string \<times> string) list"
  r_cookies :: "string \<rightharpoonup> string"
  r_json :: "json option"

datatype outcome = Raises exn | Responds Response

type_synonym call = "string \<times> string \<times> kwargs"

text \<open>
  The transport (\<^verbatim>\<open>Session.request\<close>) is a parameter: any function from the
  requests dispatched so far, the current one last, to what the current one does.
  What the transport itself does to the session (storing the cookies a server sets)
  stays outside the model.
\<close>

type_synonym transport = "call list \<Rightarrow> outcome"

text \<open>
  What a call leaves in the world outside the client: the requests handed to the
  transport, the arguments of the \<^verbatim>\<open>smart_delay\<close> sleeps, and the clock that
  \<^verbatim>\<open>time()\<close> reads.
\<close>

record World =
  calls :: "call list"
  delays :: "int list"
  clock :: int

definition smart_delay :: "int \<Rightarrow> World \<Rightarrow> World" where
  "smart_delay n w = w\<lparr>delays := delays w @ [n]\<rparr>"

subsection \<open>Debug capture\<close>

text \<open>
  \<^verbatim>\<open>save_req\<close>: a value \<^verbatim>\<open>orjson.dumps\<close> refuses is replaced by its
  \<^verbatim>\<open>str()\<close>.
\<close>

fun coerce :: "pyval \<Rightarrow> pyval" where
  "coerce (Ser j) = Ser j"
| "coerce (Obj s b d its) = (if d then Obj s b d its else Ser (JStr s))"

definition save_req :: "int \<Rightarrow> string \<Rightarrow> string \<Rightarrow> bool \<Rightarrow> kwargs \<Rightarrow> Http \<Rightarrow> Http" where
  "save_req now method url debug kw self =
     (case debugger self of
        Some dbg \<Rightarrow>
          if debug then
            let params = map (\<lambda>(key, val). (key, coerce val)) kw;
                cks = jar_items_dict (cookies (client self));
                hds = cid_items (headers (client self));
                cd = \<lparr> req_half = \<lparr> time_stamp = now, rq_method = method, rq_url = url,
                                    rq_params = params, rq_headers = hds, rq_cookies = cks \<rparr>,
                       res_half = HttpResponse_default now \<rparr>
            in self\<lparr>data := Some cd, debugger := Some (save cd (id_add dbg))\<rparr>
          else self
      | None \<Rightarrow> self)"

definition save_res :: "Response \<Rightarrow> bool \<Rightarrow> Http \<Rightarrow> exn option \<times> Http" where
  "save_res response debug self =
     (case debugger self of
        Some dbg \<Rightarrow>
          if debug then
            (case data self of
               None \<Rightarrow> (Some AttributeError, self)
             | Some cd \<Rightarrow>
                 let res_json = (case r_json response of None \<Rightarrow> JDict [] | Some j \<Rightarrow> j);
                     cd = cd\<lparr>res_half := (res_half cd)
                            \<lparr> rs_success := ok response, rs_code := status_code response,
                              rs_url := r_url response, rs_headers := r_headers response,
                              rs_cookies := r_cookies response, rs_text := r_text response,
                              rs_json := res_json \<rparr>\<rparr>
                 in (None, self\<lparr>data := Some cd, debugger := Some (save cd dbg)\<rparr>))
          else (None, self)
      | None \<Rightarrow> (None, self))"

subsection \<open>Performing a request\<close>

text \<open>
  The handler of \<^verbatim>\<open>req\<close>: a \<^verbatim>\<open>RequestException\<close> is given to
  \<^verbatim>\<open>self.logger.exception\<close> and the call returns \<^verbatim>\<open>None\<close>; any other exception
  propagates. The logger is dereferenced as it is: \<^verbatim>\<open>None.exception\<close> raises
  \<^verbatim>\<open>AttributeError\<close>.
\<close>

definition req_except ::
  "exn \<Rightarrow> Http \<Rightarrow> World \<Rightarrow> (exn + Response option) \<times> Http \<times> World" where
  "req_except e self w =
     (if is_RequestException e
      then (case logger self of
              None \<Rightarrow> (Inl AttributeError, self, w)
            | Some lg \<Rightarrow> (Inr None, self\<lparr>logger := Some (lg @ [Exception e])\<rparr>, w))
      else (Inl e, self, w))"

definition req ::
  "transport \<Rightarrow> string \<Rightarrow> string \<Rightarrow> bool \<Rightarrow> kwargs \<Rightarrow> Http \<Rightarrow> World
     \<Rightarrow> (exn + Response option) \<times> Http \<times> World" where
  "req net method url debug kw self w =
     (case prepare_headers kw self of
        (Some e, s1) \<Rightarrow> req_except e s1 w
      | (None, s1) \<Rightarrow>
          let s2 = save_req (clock w) method url debug kw s1;
              kw2 = (if \<not> truthy (kw_get kw ''timeout'')
                     then AList.update ''timeout'' (Ser (JInt (timeout s2))) kw
                     else kw);
              w2 = w\<lparr>calls := calls w @ [(method, url, kw2)]\<rparr>
          in (case net (calls w2) of
                Raises e \<Rightarrow> req_except e s2 w2
              | Responds response \<Rightarrow>
                  (case logger s2 of
                     None \<Rightarrow> req_except AttributeError s2 w2
                   | Some lg \<Rightarrow>
                       let s3 = s2\<lparr>logger := Some (lg @ [Info (status_code response)
                                     (length (r_text response)) (r_url response)])\<rparr>
                       in (case save_res response debug s3 of
                             (Some e, s4) \<Rightarrow> req_except e s4 w2
                           | (None, s4) \<Rightarrow> (Inr (Some response), s4, w2)))))"

definition get ::
  "transport \<Rightarrow> string \<Rightarrow> bool \<Rightarrow> kwargs \<Rightarrow> Http \<Rightarrow> World
     \<Rightarrow> (exn + Response option) \<times> Http \<times> World" where
  "get net url debug kw self w = req net ''GET'' url debug kw self w"

section \<open>The retrying fetcher \<^verbatim>\<open>SmartHTTP\<close>\<close>

record SmartHTTP =
  sm_logger :: Logger
  sm_timeout :: int
  sm_debugger :: "Debugger option"
  list_ua :: "string list"
  list_px :: "string list"
  http :: Http

text \<open>
  A call \<^verbatim>\<open>Http(name=value, ...)\<close> by keywords only: Python binds every keyword to
  the parameter of that name and raises \<^verbatim>\<open>TypeError\<close> for a keyword that names no
  parameter, and for a required parameter left without a value.
\<close>

datatype arg = AStr string | AInt int | ALogger "Logger option" | ADebugger "Debugger option"

definition Http_params :: "string list" where
  "Http_params = [''user_agent'', ''proxy_url'', ''timeout'', ''logger'', ''debugger'']"

definition Http_call :: "cidict \<Rightarrow> (string \<times> arg) list \<Rightarrow> exn + Http" where
  "Http_call lib_headers kws =
     (if \<not> list_all (\<lambda>k. k \<in> set Http_params) (map fst kws) then Inl TypeError
      else (case (map_of kws ''user_agent'', map_of kws ''proxy_url'') of
              (Some (AStr ua), Some (AStr px)) \<Rightarrow>
                Http_init lib_headers ua px
                  (case map_of kws ''timeout'' of Some (AInt t) \<Rightarrow> t | _ \<Rightarrow> 30)
                  (case map_of kws ''logger'' of Some (ALogger lg) \<Rightarrow> lg | _ \<Rightarrow> None)
                  (case map_of kws ''debugger'' of Some (ADebugger d) \<Rightarrow> d | _ \<Rightarrow> None)
            | _ \<Rightarrow> Inl TypeError))"

text \<open>\<^verbatim>\<open>new_http\<close>, with the keywords as the source spells them.\<close>

definition new_http :: "cidict \<Rightarrow> SmartHTTP \<Rightarrow> string \<Rightarrow> string \<Rightarrow> exn + Http" where
  "new_http lib_headers self ua px =
     Http_call lib_headers
       [(''user_agent'', AStr ua),
        (''proxy_url'', AStr px),
        (''timeou'', AInt (sm_timeout self)),
        (''logger'', ALogger (Some (sm_logger self))),
        (''debugger'', ADebugger (sm_debugger self))]"

text \<open>
  \<^verbatim>\<open>random.choice\<close>, with the random draw as an argument: \<^verbatim>\<open>IndexError\<close> on
  an empty sequence.
\<close>

definition choice :: "'a list \<Rightarrow> nat \<Rightarrow> exn + 'a" where
  "choice xs draw = (if xs = [] then Inl IndexError else Inr (xs ! (draw mod length xs)))"

definition rnd_http :: "cidict \<Rightarrow> SmartHTTP \<Rightarrow> nat \<Rightarrow> nat \<Rightarrow> exn + Http" where
  "rnd_http lib_headers self draw_ua draw_px =
     (case choice (list_ua self) draw_ua of
        Inl e \<Rightarrow> Inl e
      | Inr ua \<Rightarrow>
          (case choice (list_px self) draw_px of
             Inl e \<Rightarrow> Inl e
           | Inr px \<Rightarrow> new_http lib_headers self ua px))"

definition default_http :: "cidict \<Rightarrow> SmartHTTP \<Rightarrow> exn + Http" where
  "default_http lib_headers self =
     (case list_ua self of
        [] \<Rightarrow> Inl IndexError
      | ua # _ \<Rightarrow>
          (case list_px self of
             [] \<Rightarrow> Inl IndexError
           | px # _ \<Rightarrow> new_http lib_headers self ua px))"

text \<open>
  The loop of \<^verbatim>\<open>http_get_html\<close>, by the attempts that remain. \<^verbatim>\<open>get\<close> returning
  \<^verbatim>\<open>None\<close> is handed to \<^verbatim>\<open>with\<close>, which raises \<^verbatim>\<open>TypeError\<close>; the
  handler of the loop takes \<^verbatim>\<open>RequestException\<close> only.
\<close>

fun html_loop ::
  "transport \<Rightarrow> string \<Rightarrow> bool \<Rightarrow> nat \<Rightarrow> Http \<Rightarrow> World \<Rightarrow> (exn + string) \<times> Http \<times> World" where
  "html_loop net url debug 0 h w = (Inr [], h, w)"
| "html_loop net url debug (Suc n) h w =
     (case get net url debug [] h w of
        (Inl e, h1, w1) \<Rightarrow>
          if is_RequestException e
          then (if debug then (Inl e, h1, w1)
                else html_loop net url debug n h1 (smart_delay 2 w1))
          else (Inl e, h1, w1)
      | (Inr None, h1, w1) \<Rightarrow> (Inl TypeError, h1, w1)
      | (Inr (Some response), h1, w1) \<Rightarrow>
          if ok response then (Inr (r_text response), h1, w1)
          else html_loop net url debug n h1 (smart_delay 2 w1))"

definition http_get_html ::
  "transport \<Rightarrow> string \<Rightarrow> bool \<Rightarrow> int \<Rightarrow> SmartHTTP \<Rightarrow> World
     \<Rightarrow> (exn + string) \<times> SmartHTTP \<times> World" where
  "http_get_html net url debug retry self w =
     (case html_loop net url debug (nat retry) (http self) w of
        (res, h1, w1) \<Rightarrow> (res, self\<lparr>http := h1\<rparr>, w1))"

text \<open>
  The loop of \<^verbatim>\<open>http_get_json\<close>: \<^verbatim>\<open>response.json()\<close> raises
  \<^verbatim>\<open>JSONDecodeError\<close> on a body that is not valid JSON, inside the \<^verbatim>\<open>try\<close>.
\<close>

fun json_loop ::
  "transport \<Rightarrow> string \<Rightarrow> bool \<Rightarrow> nat \<Rightarrow> Http \<Rightarrow> World \<Rightarrow> (exn + json) \<times> Http \<times> World" where
  "json_loop net url debug 0 h w = (Inr (JDict []), h, w)"
| "json_loop net url debug (Suc n) h w =
     (case get net url debug [] h w of
        (Inl e, h1, w1) \<Rightarrow>
          if is_RequestException e
          then (if debug then (Inl e, h1, w1)
                else json_loop net url debug n h1 (smart_delay 2 w1))
          else (Inl e, h1, w1)
      | (Inr None, h1, w1) \<Rightarrow> (Inl TypeError, h1, w1)
      | (Inr (Some response), h1, w1) \<Rightarrow>
          if ok response
          then (case r_json response of
                  Some j \<Rightarrow> (Inr j, h1, w1)
                | None \<Rightarrow>
                    if debug then (Inl JSONDecodeError, h1, w1)
                    else json_loop net url debug n h1 (smart_delay 2 w1))
          else json_loop net url debug n h1 (smart_delay 2 w1))"

definition http_get_json ::
  "transport \<Rightarrow> string \<Rightarrow> bool \<Rightarrow> int \<Rightarrow> SmartHTTP \<Rightarrow> World
     \<Rightarrow> (exn + json) \<times> SmartHTTP \<times> World" where
  "http_get_json net url debug retry self w =
     (case json_loop net url debug (nat retry) (http self) w of
        (res, h1, w1) \<Rightarrow> (res, self\<lparr>http := h1\<rparr>, w1))"

section \<open>Example values\<close>

text \<open>
  A client as \<^verbatim>\<open>Http("Mozilla/5.0", "", logger=...)\<close> builds it over a session
  without library headers, and a world in which nothing has happened yet.
\<close>

abbreviation example_session :: Session where
  "example_session \<equiv>
     \<lparr> headers = [(''user-agent'', (''User-Agent'', Ser (JStr ''Mozilla/5.0'')))],
       cookies = [], proxies = [] \<rparr>"

abbreviation example_http :: "Logger option \<Rightarrow> Debugger option \<Rightarrow> Http" where
  "example_http lg dbg \<equiv>
     \<lparr> user_agent = ''Mozilla/5.0'', proxy_url = [], logger = lg, timeout = 30,
       debugger = dbg, client = example_session, data = None \<rparr>"

abbreviation example_world :: World where
  "example_world \<equiv> \<lparr> calls = [], delays = [], clock = 1700000000 \<rparr>"

abbreviation example_smart :: SmartHTTP where
  "example_smart \<equiv>
     \<lparr> sm_logger = [], sm_timeout = 30, sm_debugger = None,
       list_ua = [''Mozilla/5.0 (A)'', ''Mozilla/5.0 (B)'', ''Mozilla/5.0 (C)''],
       list_px = [''http://10.0.0.1:8080'', ''http://10.0.0.2:8080''],
       http = example_http (Some []) None \<rparr>"

section \<open>Properties\<close>

subsection \<open>Headers\<close>

lemma cid_get_set:
  "cid_get (cid_set k v d) k' = (if lower k' = lower k then Some v else cid_get d k')"
  by (simp add: cid_get_def cid_set_def update_conv')

lemma cid_get_del:
  "cid_get (cid_del k d) k' = (if lower k' = lower k then None else cid_get d k')"
  by (simp add: cid_get_def cid_del_def delete_conv')

lemma header_set_lookup:
  "cid_get (headers (client (header_set k v s))) k' =
     (if lower k' = lower k then (if is_None v then None else Some v)
      else cid_get (headers (client s)) k')"
  by (auto simp add: header_set_def cid_get_set cid_get_del cid_mem_def)
     (simp add: cid_get_def)

lemma header_set_frame:
  "logger (header_set k v s) = logger s"
  "debugger (header_set k v s) = debugger s"
  "timeout (header_set k v s) = timeout s"
  "data (header_set k v s) = data s"
  "cookies (client (header_set k v s)) = cookies (client s)"
  by (simp_all add: header_set_def)

lemma fold_header_set_frame:
  "logger (fold (\<lambda>(key, val). header_set key val) hs s) = logger s"
  "debugger (fold (\<lambda>(key, val). header_set key val) hs s) = debugger s"
  "timeout (fold (\<lambda>(key, val). header_set key val) hs s) = timeout s"
  "data (fold (\<lambda>(key, val). header_set key val) hs s) = data s"
  "cookies (client (fold (\<lambda>(key, val). header_set key val) hs s)) = cookies (client s)"
  by (induction hs arbitrary: s; simp add: header_set_frame split: prod.splits)+

text \<open>
  Writing the entries of a \<^verbatim>\<open>headers\<close> option one after the other leaves, under
  each key, the last entry whose key is that key up to case.
\<close>

lemma fold_header_set_lookup:
  "cid_get (headers (client (fold (\<lambda>(key, val). header_set key val) hs s))) k' =
     (case map_of (rev (map (\<lambda>(k, v). (lower k, v)) hs)) (lower k') of
        Some v \<Rightarrow> (if is_None v then None else Some v)
      | None \<Rightarrow> cid_get (headers (client s)) k')"
proof (induction hs arbitrary: s)
  case Nil
  show ?case by simp
next
  case (Cons p ps)
  obtain k v where p: "p = (k, v)" by (cases p)
  show ?case
    by (simp add: p Cons.IH header_set_lookup map_add_def split: option.splits)
qed

lemma prepare_headers_frame:
  "logger (snd (prepare_headers kw s)) = logger s"
  "debugger (snd (prepare_headers kw s)) = debugger s"
  "timeout (snd (prepare_headers kw s)) = timeout s"
  "data (snd (prepare_headers kw s)) = data s"
  "cookies (client (snd (prepare_headers kw s))) = cookies (client s)"
  by (simp_all add: prepare_headers_def Let_def h_json_def h_data_def header_set_frame
      fold_header_set_frame split: option.splits)

text \<open>
  C6. After \<^verbatim>\<open>prepare_headers\<close>, \<^verbatim>\<open>Content-Type\<close> is the JSON content type when
  the \<^verbatim>\<open>json\<close> option is given, and the form-encoded one when \<^verbatim>\<open>data\<close> is given
  and \<^verbatim>\<open>json\<close> is not, in both cases as long as the \<^verbatim>\<open>headers\<close> option has no
  entry for \<^verbatim>\<open>Content-Type\<close>; and every entry of the \<^verbatim>\<open>headers\<close> option wins,
  whatever object with \<^verbatim>\<open>items()\<close> the option is: the session holds, under each
  key, what the last entry for that key says (an entry \<^verbatim>\<open>None\<close> removes the
  header), whatever the presets wrote.
\<close>

theorem prepare_headers_content_type:
  "(\<not> is_None (kw_get kw ''json'')
      \<and> (\<forall>hs. py_items (kw_get kw ''headers'') = Some hs \<longrightarrow>
            map_of (rev (map (\<lambda>(k, v). (lower k, v)) hs)) (lower ''Content-Type'') = None) \<longrightarrow>
      header_get (snd (prepare_headers kw self)) ''Content-Type''
        = Ser (JStr ''application/json; charset=UTF-8''))
   \<and> (is_None (kw_get kw ''json'') \<and> \<not> is_None (kw_get kw ''data'')
      \<and> (\<forall>hs. py_items (kw_get kw ''headers'') = Some hs \<longrightarrow>
            map_of (rev (map (\<lambda>(k, v). (lower k, v)) hs)) (lower ''Content-Type'') = None) \<longrightarrow>
      header_get (snd (prepare_headers kw self)) ''Content-Type''
        = Ser (JStr ''application/x-www-form-urlencoded; charset=UTF-8''))
   \<and> (\<forall>hs key v. py_items (kw_get kw ''headers'') = Some hs
        \<and> map_of (rev (map (\<lambda>(k, v). (lower k, v)) hs)) (lower key) = Some v \<longrightarrow>
      cid_get (headers (client (snd (prepare_headers kw self)))) key
        = (if is_None v then None else Some v))"
proof -
  have preset: "header_get (snd (prepare_headers kw self)) ''Content-Type''
        = Ser (JStr (if \<not> is_None (kw_get kw ''json'') then ''application/json; charset=UTF-8''
                     else ''application/x-www-form-urlencoded; charset=UTF-8''))"
    if a: "\<not> is_None (kw_get kw ''json'') \<or> \<not> is_None (kw_get kw ''data'')"
      and b: "\<forall>hs. py_items (kw_get kw ''headers'') = Some hs \<longrightarrow>
            map_of (rev (map (\<lambda>(k, v). (lower k, v)) hs)) (lower ''Content-Type'') = None"
  proof (cases "py_items (kw_get kw ''headers'')")
    case None
    then show ?thesis using a
      by (auto simp add: prepare_headers_def Let_def h_json_def h_data_def
            header_get_def cid_mem_def header_set_lookup is_None_def)
  next
    case (Some hs)
    have "map_of (rev (map (\<lambda>(k, v). (lower k, v)) hs)) (lower ''Content-Type'') = None"
      using b Some by simp
    then show ?thesis using a
      by (auto simp add: prepare_headers_def Let_def Some h_json_def h_data_def
            header_get_def cid_mem_def header_set_lookup fold_header_set_lookup is_None_def)
  qed
  have nn: "\<not> is_None (kw_get kw ''headers'')"
    if "py_items (kw_get kw ''headers'') = Some hs" for hs
    using that by (auto simp add: is_None_def)
  have override: "cid_get (headers (client (snd (prepare_headers kw self)))) key
        = (if is_None v then None else Some v)"
    if "py_items (kw_get kw ''headers'') = Some hs"
      and "map_of (rev (map (\<lambda>(k, v). (lower k, v)) hs)) (lower key) = Some v"
    for hs key v
    using that nn [OF that(1)]
    by (simp add: prepare_headers_def Let_def fold_header_set_lookup)
  show ?thesis
    using preset override by simp
qed

theorem prepare_headers_content_type_witness:
  "header_get (snd (prepare_headers [(''json'', Ser (JDict [(''a'', JInt 1)]))]
       (example_http (Some []) None))) ''Content-Type''
     = Ser (JStr ''application/json; charset=UTF-8'')
   \<and> header_get (snd (prepare_headers [(''data'', Ser (JStr ''a=1''))]
       (example_http (Some []) None))) ''Content-Type''
     = Ser (JStr ''application/x-www-form-urlencoded; charset=UTF-8'')
   \<and> cid_get (headers (client (snd (prepare_headers
        [(''json'', Ser (JDict [(''a'', JInt 1)])),
         (''headers'', Ser (JDict [(''content-type'', JStr ''text/plain'')]))]
        (example_http (Some []) None))))) ''Content-Type''
     = Some (Ser (JStr ''text/plain''))
   \<and> cid_get (headers (client (snd (prepare_headers
        [(''json'', Ser (JDict [(''a'', JInt 1)])),
         (''headers'', Obj ''CaseInsensitiveDict(Content-Type: bytes)'' True False
            (Some [(''Content-Type'', Obj ''bytes(text/plain)'' True False None)]))]
        (example_http (Some []) None))))) ''Content-Type''
     = Some (Obj ''bytes(text/plain)'' True False None)"
proof -
  have l: "lower ''Content-Type'' = ''content-type''" "lower ''content-type'' = ''content-type''"
    by (simp_all add: lower_def lower_char_def)
  show ?thesis
    using prepare_headers_content_type [of "[(''json'', Ser (JDict [(''a'', JInt 1)]))]"
        "example_http (Some []) None"]
      prepare_headers_content_type [of "[(''data'', Ser (JStr ''a=1''))]"
        "example_http (Some []) None"]
      prepare_headers_content_type [of "[(''json'', Ser (JDict [(''a'', JInt 1)])),
         (''headers'', Ser (JDict [(''content-type'', JStr ''text/plain'')]))]"
        "example_http (Some []) None"]
      prepare_headers_content_type [of "[(''json'', Ser (JDict [(''a'', JInt 1)])),
         (''headers'', Obj ''CaseInsensitiveDict(Content-Type: bytes)'' True False
            (Some [(''Content-Type'', Obj ''bytes(text/plain)'' True False None)]))]"
        "example_http (Some []) None"]
    by (simp add: kw_get_def is_None_def l)
qed

subsection \<open>Construction\<close>

text \<open>
  C5. Constructing a session client succeeds exactly when the user-agent is not empty:
  then \<^verbatim>\<open>header_get("User-Agent")\<close> is the given string, and with an empty user-agent
  the construction fails on its assertion (the spec's \<^verbatim>\<open>InvalidIdentity\<close>).
\<close>

theorem Http_init_user_agent:
  "(ua \<noteq> [] \<longrightarrow>
      (\<exists>h. Http_init lib_headers ua px t lg dbg = Inr h
          \<and> header_get h ''User-Agent'' = Ser (JStr ua)))
   \<and> (ua = [] \<longrightarrow> Http_init lib_headers ua px t lg dbg = Inl AssertionError)"
  by (simp add: Http_init_def header_get_def cid_mem_def cid_get_set Let_def)

theorem Http_init_user_agent_witness:
  "Http_init [] ''Mozilla/5.0'' [] 30 None None = Inr (example_http None None)
   \<and> header_get (example_http None None) ''User-Agent'' = Ser (JStr ''Mozilla/5.0'')
   \<and> Http_init [] [] [] 30 None None = Inl AssertionError"
  using Http_init_user_agent [of "''Mozilla/5.0''" "[]" "[]" 30 None None]
    Http_init_user_agent [of "[]" "[]" "[]" 30 None None]
  by (simp add: Http_init_def Session_new_def Let_def cid_set_def lower_def lower_char_def)

text \<open>
  C4. \<^verbatim>\<open>rnd_http\<close> hands \<^verbatim>\<open>new_http\<close> one of the three user agents and one of the
  two proxies, and \<^verbatim>\<open>new_http\<close> calls \<^verbatim>\<open>Http\<close> with the keyword \<^verbatim>\<open>timeou\<close>,
  which is no parameter of \<^verbatim>\<open>Http.__init__\<close>: the call raises \<^verbatim>\<open>TypeError\<close> and no
  client is returned.
\<close>

theorem rnd_http_raises:
  "rnd_http [] example_smart 2 1 = Inl TypeError"
  by (simp add: rnd_http_def choice_def new_http_def Http_call_def Http_params_def)

subsection \<open>Performing a request\<close>

lemma save_req_frame:
  "logger (save_req now m u d kw s) = logger s"
  "timeout (save_req now m u d kw s) = timeout s"
  "client (save_req now m u d kw s) = client s"
  by (simp_all add: save_req_def Let_def split: option.splits)

lemma req_except_world: "snd (snd (req_except e s w)) = w"
  by (simp add: req_except_def split: option.splits)

lemma req_except_debugger: "debugger (fst (snd (req_except e s w))) = debugger s"
  by (simp add: req_except_def split: option.splits)

text \<open>
  Once the headers are prepared, \<^verbatim>\<open>req\<close> hands exactly one request to the
  transport, whatever happens next.
\<close>

lemma req_calls:
  assumes "fst (prepare_headers kw self) = None"
  shows "calls (snd (snd (req net meth url debug kw self w)))
         = calls w @ [(meth, url,
              if truthy (kw_get kw ''timeout'') then kw
              else AList.update ''timeout'' (Ser (JInt (timeout self))) kw)]"
proof -
  obtain s1 where p: "prepare_headers kw self = (None, s1)"
    using assms by (cases "prepare_headers kw self") simp
  have t: "timeout s1 = timeout self"
    using prepare_headers_frame(3) [of kw self] by (simp add: p)
  show ?thesis
    by (simp add: req_def p Let_def t save_req_frame req_except_world
        split: outcome.splits option.splits prod.splits)
qed

text \<open>
  C8, as the code has it. The default timeout of the session is applied exactly when
  the \<^verbatim>\<open>timeout\<close> option is absent or falsy (\<^verbatim>\<open>None\<close>, \<^verbatim>\<open>0\<close>,
  \<^verbatim>\<open>False\<close>, empty); a truthy timeout reaches the transport with the options
  unchanged.
\<close>

theorem req_timeout_default:
  assumes "fst (prepare_headers kw self) = None"
  shows "\<exists>kw2. calls (snd (snd (req net meth url debug kw self w)))
                 = calls w @ [(meth, url, kw2)]
           \<and> (truthy (kw_get kw ''timeout'') \<longrightarrow> kw2 = kw)
           \<and> (\<not> truthy (kw_get kw ''timeout'') \<longrightarrow>
                 kw2 = AList.update ''timeout'' (Ser (JInt (timeout self))) kw
               \<and> kw_get kw2 ''timeout'' = Ser (JInt (timeout self)))"
  using req_calls [OF assms, of net meth url debug w]
  by (simp add: kw_get_def update_conv')

theorem req_timeout_default_witness:
  "fst (prepare_headers [] (example_http (Some []) None)) = None
   \<and> fst (prepare_headers [(''timeout'', Ser (JInt 5))] (example_http (Some []) None)) = None
   \<and> calls (snd (snd (req (\<lambda>cs. Raises RequestException) ''GET'' ''http://example.com/'' False
        [] (example_http (Some []) None) example_world)))
       = [(''GET'', ''http://example.com/'', [(''timeout'', Ser (JInt 30))])]
   \<and> calls (snd (snd (req (\<lambda>cs. Raises RequestException) ''GET'' ''http://example.com/'' False
        [(''timeout'', Ser (JInt 5))] (example_http (Some []) None) example_world)))
       = [(''GET'', ''http://example.com/'', [(''timeout'', Ser (JInt 5))])]"
proof -
  have p: "fst (prepare_headers [] (example_http (Some []) None)) = None"
    "fst (prepare_headers [(''timeout'', Ser (JInt 5))] (example_http (Some []) None)) = None"
    by (simp_all add: prepare_headers_def kw_get_def is_None_def)
  show ?thesis
    using p req_timeout_default [OF p(1), of "\<lambda>cs. Raises RequestException" "''GET''"
        "''http://example.com/''" False example_world]
      req_timeout_default [OF p(2), of "\<lambda>cs. Raises RequestException" "''GET''"
        "''http://example.com/''" False example_world]
    by (auto simp add: kw_get_def)
qed

text \<open>
  C8, as the claim states it, fails: a caller who supplies \<^verbatim>\<open>timeout=0\<close> has it
  replaced by the session's 30.
\<close>

theorem req_timeout_zero_replaced:
  "calls (snd (snd (req (\<lambda>cs. Raises RequestException) ''GET'' ''http://example.com/'' False
       [(''timeout'', Ser (JInt 0))] (example_http (Some []) None) example_world)))
     = [(''GET'', ''http://example.com/'', [(''timeout'', Ser (JInt 30))])]
   \<and> calls (snd (snd (req (\<lambda>cs. Raises RequestException) ''GET'' ''http://example.com/'' False
       [(''timeout'', Ser (JInt 0))] (example_http (Some []) None) example_world)))
     \<noteq> [(''GET'', ''http://example.com/'', [(''timeout'', Ser (JInt 0))])]"
  by (simp add: req_def req_except_def prepare_headers_def kw_get_def is_None_def save_req_def
      Let_def)

subsection \<open>The logger\<close>

lemma req_no_logger:
  assumes "logger self = None"
  shows "\<exists>e. fst (req net meth url debug kw self w) = Inl e"
proof -
  obtain r s1 where p: "prepare_headers kw self = (r, s1)"
    by (cases "prepare_headers kw self")
  have l: "logger s1 = None"
    using prepare_headers_frame(1) [of kw self] assms by (simp add: p)
  show ?thesis
    by (cases r) (auto simp add: req_def p Let_def l save_req_frame req_except_def
        split: outcome.splits option.splits prod.splits)
qed

lemma req_no_logger_attr:
  assumes "logger self = None" and "fst (prepare_headers kw self) = None"
    and "case net (calls (snd (snd (req net meth url debug kw self w)))) of
           Raises e \<Rightarrow> is_RequestException e | Responds r \<Rightarrow> True"
  shows "fst (req net meth url debug kw self w) = Inl AttributeError"
proof -
  obtain s1 where p: "prepare_headers kw self = (None, s1)"
    using assms(2) by (cases "prepare_headers kw self") simp
  have l: "logger s1 = None"
    using prepare_headers_frame(1) [of kw self] assms(1) by (simp add: p)
  have t: "timeout s1 = timeout self"
    using prepare_headers_frame(3) [of kw self] by (simp add: p)
  have n: "case net (calls w @ [(meth, url,
              if truthy (kw_get kw ''timeout'') then kw
              else AList.update ''timeout'' (Ser (JInt (timeout self))) kw)]) of
           Raises e \<Rightarrow> is_RequestException e | Responds r \<Rightarrow> True"
    using assms(3) by (simp add: req_calls [OF assms(2)])
  show ?thesis
    using n by (cases "truthy (kw_get kw ''timeout'')")
      (auto simp add: req_def p Let_def l t save_req_frame req_except_def
        split: outcome.splits)
qed

text \<open>
  C10. A client built without the \<^verbatim>\<open>logger\<close> argument has no logger, and on a
  client without a logger every call of \<^verbatim>\<open>req\<close> raises: when the headers were
  prepared and the transport answers or fails with a \<^verbatim>\<open>RequestException\<close>, the
  call ends in the \<^verbatim>\<open>AttributeError\<close> of \<^verbatim>\<open>self.logger.info\<close> or
  \<^verbatim>\<open>self.logger.exception\<close>, and returns neither a response nor \<^verbatim>\<open>None\<close>.
\<close>

theorem req_without_logger_raises:
  "(\<forall>h. Http_call lib_headers [(''user_agent'', AStr ua), (''proxy_url'', AStr px)] = Inr h
        \<longrightarrow> logger h = None)
   \<and> (logger self = None \<longrightarrow>
        (\<exists>e. fst (req net meth url debug kw self w) = Inl e)
      \<and> (fst (prepare_headers kw self) = None
          \<and> (case net (calls (snd (snd (req net meth url debug kw self w)))) of
                Raises e \<Rightarrow> is_RequestException e | Responds r \<Rightarrow> True)
          \<longrightarrow> fst (req net meth url debug kw self w) = Inl AttributeError))"
proof -
  have "logger h = None"
    if "Http_call lib_headers [(''user_agent'', AStr ua), (''proxy_url'', AStr px)] = Inr h" for h
    using that
    by (auto simp add: Http_call_def Http_params_def Http_init_def Let_def split: if_splits)
  then show ?thesis
    using req_no_logger req_no_logger_attr by blast
qed

theorem req_without_logger_raises_witness:
  "Http_call [] [(''user_agent'', AStr ''Mozilla/5.0''), (''proxy_url'', AStr [])]
      = Inr (example_http None None)
   \<and> logger (example_http None None) = None
   \<and> fst (req (\<lambda>cs. Raises RequestException) ''GET'' ''http://example.com/'' False []
            (example_http None None) example_world) = Inl AttributeError
   \<and> fst (req (\<lambda>cs. Responds \<lparr> status_code = 200, ok = True, r_url = ''http://example.com/'',
              r_text = ''hello'', r_headers = [], r_cookies = Map.empty, r_json = None \<rparr>)
            ''GET'' ''http://example.com/'' False [] (example_http None None) example_world)
       = Inl AttributeError"
  using req_without_logger_raises [of "[]" "''Mozilla/5.0''" "[]" "example_http None None"
      "\<lambda>cs. Raises RequestException" "''GET''" "''http://example.com/''" False "[]" example_world]
    req_without_logger_raises [of "[]" "''Mozilla/5.0''" "[]" "example_http None None"
      "\<lambda>cs. Responds \<lparr> status_code = 200, ok = True, r_url = ''http://example.com/'',
              r_text = ''hello'', r_headers = [], r_cookies = Map.empty, r_json = None \<rparr>"
      "''GET''" "''http://example.com/''" False "[]" example_world]
  by (simp add: Http_call_def Http_params_def Http_init_def Session_new_def Let_def cid_set_def
      lower_def lower_char_def prepare_headers_def kw_get_def is_None_def)

text \<open>
  With a logger attached, a transport failure is logged and swallowed: the call
  returns \<^verbatim>\<open>None\<close>.
\<close>

lemma req_swallows_with_logger:
  assumes "logger self = Some lg" and "fst (prepare_headers kw self) = None"
    and "net (calls (snd (snd (req net meth url debug kw self w)))) = Raises e"
    and "is_RequestException e"
  shows "fst (req net meth url debug kw self w) = Inr None
       \<and> logger (fst (snd (req net meth url debug kw self w))) = Some (lg @ [Exception e])"
proof -
  obtain s1 where p: "prepare_headers kw self = (None, s1)"
    using assms(2) by (cases "prepare_headers kw self") simp
  have l: "logger s1 = Some lg"
    using prepare_headers_frame(1) [of kw self] assms(1) by (simp add: p)
  have t: "timeout s1 = timeout self"
    using prepare_headers_frame(3) [of kw self] by (simp add: p)
  have n: "net (calls w @ [(meth, url,
              if truthy (kw_get kw ''timeout'') then kw
              else AList.update ''timeout'' (Ser (JInt (timeout self))) kw)]) = Raises e"
    using assms(3) by (simp add: req_calls [OF assms(2)])
  show ?thesis
    using n assms(4) by (cases "truthy (kw_get kw ''timeout'')")
      (simp_all add: req_def p Let_def l t save_req_frame req_except_def)
qed

text \<open>
  C2. On a client built without a logger (the default of \<^verbatim>\<open>Http.__init__\<close>), a
  transport failure inside \<^verbatim>\<open>req\<close> is not swallowed: the handler's
  \<^verbatim>\<open>self.logger.exception(err)\<close> raises \<^verbatim>\<open>AttributeError\<close>, which reaches the
  caller, and nothing is logged.
\<close>

theorem req_failure_without_logger:
  "req (\<lambda>cs. Raises RequestException) ''GET'' ''http://example.com/'' False []
       (example_http None None) example_world
   = (Inl AttributeError, example_http None None,
      example_world\<lparr>calls := [(''GET'', ''http://example.com/'', [(''timeout'', Ser (JInt 30))])]\<rparr>)"
  by (simp add: req_def req_except_def prepare_headers_def kw_get_def is_None_def save_req_def
      Let_def)

subsection \<open>The debug record\<close>

text \<open>
  Read on their own, \<^verbatim>\<open>save_req\<close> and \<^verbatim>\<open>req\<close> ask for this record: in a
  debug-enabled call on a client with a debugger, when the transport raises, what is
  persisted under the new identifier is the request as captured and a response half
  with the values the declaration states as defaults, code 200 and success false.
\<close>

lemma req_debug_record_as_declared:
  assumes "debugger self = Some dbg"
    and "fst (prepare_headers kw self) = None"
    and "net (calls (snd (snd (req net meth url True kw self w)))) = Raises e"
  shows "\<exists>dbg' cd. debugger (fst (snd (req net meth url True kw self w))) = Some dbg'
      \<and> dbg_id dbg' = Suc (dbg_id dbg)
      \<and> dbg_store dbg' (dbg_id dbg') = Some cd
      \<and> rq_method (req_half cd) = meth \<and> rq_url (req_half cd) = url
      \<and> rq_params (req_half cd) = map (\<lambda>(k, v). (k, coerce v)) kw
      \<and> rq_headers (req_half cd) = cid_items (headers (client (snd (prepare_headers kw self))))
      \<and> rq_cookies (req_half cd) = jar_items_dict (cookies (client self))
      \<and> res_half cd = HttpResponse_default (clock w)
      \<and> rs_code (res_half cd) = 200 \<and> \<not> rs_success (res_half cd)"
proof -
  obtain s1 where p: "prepare_headers kw self = (None, s1)"
    using assms(2) by (cases "prepare_headers kw self") simp
  have d: "debugger s1 = Some dbg"
    using prepare_headers_frame(2) [of kw self] assms(1) by (simp add: p)
  have c: "cookies (client s1) = cookies (client self)"
    using prepare_headers_frame(5) [of kw self] by (simp add: p)
  have t: "timeout s1 = timeout self"
    using prepare_headers_frame(3) [of kw self] by (simp add: p)
  have n: "net (calls w @ [(meth, url,
              if truthy (kw_get kw ''timeout'') then kw
              else AList.update ''timeout'' (Ser (JInt (timeout self))) kw)]) = Raises e"
    using assms(3) by (simp add: req_calls [OF assms(2)])
  have r: "req net meth url True kw self w =
      req_except e (save_req (clock w) meth url True kw s1)
        (w\<lparr>calls := calls w @ [(meth, url,
              if truthy (kw_get kw ''timeout'') then kw
              else AList.update ''timeout'' (Ser (JInt (timeout self))) kw)]\<rparr>)"
    using n by (cases "truthy (kw_get kw ''timeout'')")
      (simp_all add: req_def p Let_def save_req_frame t)
  show ?thesis
    by (simp add: r req_except_debugger)
       (simp add: save_req_def d c p Let_def save_def id_add_def HttpResponse_default_def)
qed

text \<open>
  C7. No debug record with a response half of code 200 and success false is ever
  persisted, because the classes of the record cannot be created: the declarations of
  \<^verbatim>\<open>HttpRequest\<close> and \<^verbatim>\<open>HttpResponse\<close> give \<^verbatim>\<open>{}\<close> as the default of
  \<^verbatim>\<open>params\<close>, \<^verbatim>\<open>headers\<close>, \<^verbatim>\<open>cookies\<close> and \<^verbatim>\<open>json\<close>, the decorator
  refuses a mutable default with \<^verbatim>\<open>ValueError\<close>, and loading the module stops
  at \<^verbatim>\<open>HttpRequest\<close>.
\<close>

theorem debug_record_classes_refused:
  "AbsHttpData_class = Inr [(''time_stamp'', None)]
   \<and> HttpRequest_class = Inl ValueError
   \<and> HttpResponse_class = Inl ValueError
   \<and> load_module = Some ValueError"
  by (simp add: load_module_def AbsHttpData_class_def HttpRequest_class_def
      HttpResponse_class_def dataclass_def)

subsection \<open>Cookies\<close>

lemma cookie_load_missing: "\<not> is_file fs path \<Longrightarrow> cookie_load fs path self = self"
  by (simp add: cookie_load_def)

text \<open>
  C9. Saving does not succeed for every state of the cookie jar, so there is no round
  trip for every state: \<^verbatim>\<open>cookie_save\<close> builds \<^verbatim>\<open>dict(self.client.cookies)\<close>
  through the jar's \<^verbatim>\<open>__getitem__\<close>, which raises \<^verbatim>\<open>KeyError\<close> for a cookie
  whose value is the empty string and \<^verbatim>\<open>CookieConflictError\<close> for a name held
  for two domains; in both cases nothing is written.
\<close>

theorem cookie_save_raises:
  "cookie_save ''cookies.json'' (cookie_set ''sid'' (Some []) (example_http None None)) Map.empty
     = Inl KeyError
   \<and> cookie_save ''cookies.json''
       ((example_http None None)\<lparr>client := example_session
           \<lparr>cookies := [(''a.example'', [(''/'', [(''sid'', ''1'')])]),
                        (''b.example'', [(''/'', [(''sid'', ''2'')])])]\<rparr>\<rparr>) Map.empty
     = Inl CookieConflictError"
  by (simp add: cookie_save_def cookie_set_def jar_set_def set_cookie_def jar_dict_def
      jar_getitem_def jar_iter_def)

subsection \<open>The retrying fetcher\<close>

lemma get_responds:
  assumes "logger h = Some lg"
    and "net (calls w @ [(''GET'', url, [(''timeout'', Ser (JInt (timeout h)))])]) = Responds r"
  shows "\<exists>h'. get net url debug [] h w
           = (Inr (Some r), h',
              w\<lparr>calls := calls w @ [(''GET'', url, [(''timeout'', Ser (JInt (timeout h)))])]\<rparr>)
         \<and> logger h' \<noteq> None \<and> timeout h' = timeout h"
  using assms
  by (auto simp add: get_def req_def prepare_headers_def kw_get_def is_None_def Let_def
      save_req_def save_res_def split: option.splits)

lemma get_transport_failure:
  assumes "logger h = Some lg"
    and "net (calls w @ [(''GET'', url, [(''timeout'', Ser (JInt (timeout h)))])]) = Raises e"
    and "is_RequestException e"
  shows "\<exists>h'. get net url debug [] h w
           = (Inr None, h',
              w\<lparr>calls := calls w @ [(''GET'', url, [(''timeout'', Ser (JInt (timeout h)))])]\<rparr>)"
  using assms
  by (auto simp add: get_def req_def req_except_def prepare_headers_def kw_get_def is_None_def
      Let_def save_req_def split: option.splits)

text \<open>
  Whatever the mode and the number of attempts asked for, a first attempt whose
  transport fails ends \<^verbatim>\<open>http_get_html\<close>'s loop: \<^verbatim>\<open>get\<close> returns
  \<^verbatim>\<open>None\<close>, \<^verbatim>\<open>with None\<close> raises, one request was dispatched and there was
  no sleep.
\<close>

lemma html_loop_transport_failure:
  assumes "logger h = Some lg"
    and "net (calls w @ [(''GET'', url, [(''timeout'', Ser (JInt (timeout h)))])]) = Raises e"
    and "is_RequestException e"
  shows "fst (html_loop net url debug (Suc n) h w) = Inl TypeError
       \<and> calls (snd (snd (html_loop net url debug (Suc n) h w)))
           = calls w @ [(''GET'', url, [(''timeout'', Ser (JInt (timeout h)))])]
       \<and> delays (snd (snd (html_loop net url debug (Suc n) h w))) = delays w"
proof -
  obtain h' where "get net url debug [] h w
           = (Inr None, h',
              w\<lparr>calls := calls w @ [(''GET'', url, [(''timeout'', Ser (JInt (timeout h)))])]\<rparr>)"
    using get_transport_failure [of h lg net w url e debug] assms by blast
  then show ?thesis by simp
qed

text \<open>
  C1. With a transport that always fails and debug off, \<^verbatim>\<open>http_get_html\<close> asked
  for three attempts does not return the empty string: the first attempt logs the
  failure, \<^verbatim>\<open>get\<close> returns \<^verbatim>\<open>None\<close>, and \<^verbatim>\<open>with None as response\<close>
  raises \<^verbatim>\<open>TypeError\<close>, which the handler for \<^verbatim>\<open>RequestException\<close> does not
  take. One request was dispatched, and no sleep was made.
\<close>

theorem http_get_html_transport_failure:
  "http_get_html (\<lambda>cs. Raises RequestException) ''http://example.com/'' False 3
       example_smart example_world
   = (Inl TypeError,
      example_smart\<lparr>http := example_http (Some [Exception RequestException]) None\<rparr>,
      example_world\<lparr>calls := [(''GET'', ''http://example.com/'', [(''timeout'', Ser (JInt 30))])]\<rparr>)"
  by (simp add: http_get_html_def get_def req_def req_except_def prepare_headers_def kw_get_def
      is_None_def save_req_def Let_def eval_nat_numeral)

lemma json_loop_exhaust:
  assumes "\<forall>cs. \<exists>r. net cs = Responds r \<and> (ok r \<longrightarrow> r_json r = None)"
  shows "logger h \<noteq> None \<Longrightarrow>
     \<exists>h' w'. json_loop net url False n h w = (Inr (JDict []), h', w')
        \<and> calls w' = calls w
             @ replicate n (''GET'', url, [(''timeout'', Ser (JInt (timeout h)))])
        \<and> delays w' = delays w @ replicate n 2"
proof (induction n arbitrary: h w)
  case 0
  show ?case by simp
next
  case (Suc n)
  obtain lg where lg: "logger h = Some lg" using Suc.prems by auto
  let ?c = "(''GET'', url, [(''timeout'', Ser (JInt (timeout h)))])"
  let ?w1 = "w\<lparr>calls := calls w @ [?c]\<rparr>"
  obtain r where r: "net (calls ?w1) = Responds r" "ok r \<longrightarrow> r_json r = None"
    using assms by blast
  obtain h1 where g: "get net url False [] h w = (Inr (Some r), h1, ?w1)"
    and l1: "logger h1 \<noteq> None" and t1: "timeout h1 = timeout h"
    using get_responds [OF lg, of net w url r False] r(1) by auto
  obtain h' w' where ih: "json_loop net url False n h1 (smart_delay 2 ?w1) = (Inr (JDict []), h', w')"
    "calls w' = calls (smart_delay 2 ?w1) @ replicate n ?c"
    "delays w' = delays (smart_delay 2 ?w1) @ replicate n 2"
    using Suc.IH [OF l1, of "smart_delay 2 ?w1"] t1 by auto
  show ?case
    using r(2) ih by (auto simp add: g smart_delay_def replicate_app_Cons_same)
qed

text \<open>
  C3, as the code has it. On a client with a logger: when every attempt is answered by
  a response that is unsuccessful or whose body is not valid JSON, \<^verbatim>\<open>http_get_json\<close>
  in non-debug mode dispatches exactly \<^verbatim>\<open>retry\<close> requests, sleeps after each of
  them, and returns the empty mapping; in debug mode, when the first attempt is answered
  by a successful response whose body is not valid JSON, it raises the decode error
  there and then, after that one request and without a sleep.
\<close>

theorem http_get_json_invalid_body:
  assumes "logger (http self) \<noteq> None"
  shows "((\<forall>cs. \<exists>r. net cs = Responds r \<and> (ok r \<longrightarrow> r_json r = None)) \<longrightarrow>
          fst (http_get_json net url False retry self w) = Inr (JDict [])
        \<and> calls (snd (snd (http_get_json net url False retry self w)))
            = calls w @ replicate (nat retry)
                (''GET'', url, [(''timeout'', Ser (JInt (timeout (http self))))])
        \<and> delays (snd (snd (http_get_json net url False retry self w)))
            = delays w @ replicate (nat retry) 2)
     \<and> (\<forall>r. 0 < retry
          \<and> net (calls w @ [(''GET'', url, [(''timeout'', Ser (JInt (timeout (http self))))])])
              = Responds r
          \<and> ok r \<and> r_json r = None \<longrightarrow>
          fst (http_get_json net url True retry self w) = Inl JSONDecodeError
        \<and> calls (snd (snd (http_get_json net url True retry self w)))
            = calls w @ [(''GET'', url, [(''timeout'', Ser (JInt (timeout (http self))))])]
        \<and> delays (snd (snd (http_get_json net url True retry self w))) = delays w)"
proof -
  obtain lg where lg: "logger (http self) = Some lg" using assms by auto
  let ?c = "(''GET'', url, [(''timeout'', Ser (JInt (timeout (http self))))])"
  have quiet: "fst (http_get_json net url False retry self w) = Inr (JDict [])
        \<and> calls (snd (snd (http_get_json net url False retry self w)))
            = calls w @ replicate (nat retry) ?c
        \<and> delays (snd (snd (http_get_json net url False retry self w)))
            = delays w @ replicate (nat retry) 2"
    if a: "\<forall>cs. \<exists>r. net cs = Responds r \<and> (ok r \<longrightarrow> r_json r = None)"
  proof -
    obtain h' w' where
      "json_loop net url False (nat retry) (http self) w = (Inr (JDict []), h', w')"
      "calls w' = calls w @ replicate (nat retry) ?c"
      "delays w' = delays w @ replicate (nat retry) 2"
      using json_loop_exhaust [OF a assms] by blast
    then show ?thesis by (simp add: http_get_json_def)
  qed
  have loud: "fst (http_get_json net url True retry self w) = Inl JSONDecodeError
        \<and> calls (snd (snd (http_get_json net url True retry self w))) = calls w @ [?c]
        \<and> delays (snd (snd (http_get_json net url True retry self w))) = delays w"
    if pos: "0 < retry" and r: "net (calls w @ [?c]) = Responds r" "ok r" "r_json r = None"
    for r
  proof -
    obtain n where n: "nat retry = Suc n" using pos by (cases "nat retry") auto
    obtain h1 where g: "get net url True [] (http self) w
        = (Inr (Some r), h1, w\<lparr>calls := calls w @ [?c]\<rparr>)"
      using get_responds [OF lg, of net w url r True] r(1) by auto
    show ?thesis by (simp add: http_get_json_def n g r)
  qed
  show ?thesis using quiet loud by blast
qed

theorem http_get_json_invalid_body_witness:
  "logger (http example_smart) \<noteq> None
   \<and> fst (http_get_json (\<lambda>cs. Responds \<lparr> status_code = 200, ok = True,
              r_url = ''http://example.com/'', r_text = ''{not json'', r_headers = [],
              r_cookies = Map.empty, r_json = None \<rparr>)
        ''http://example.com/'' False 3 example_smart example_world) = Inr (JDict [])
   \<and> calls (snd (snd (http_get_json (\<lambda>cs. Responds \<lparr> status_code = 200, ok = True,
              r_url = ''http://example.com/'', r_text = ''{not json'', r_headers = [],
              r_cookies = Map.empty, r_json = None \<rparr>)
        ''http://example.com/'' False 3 example_smart example_world)))
       = [(''GET'', ''http://example.com/'', [(''timeout'', Ser (JInt 30))]),
          (''GET'', ''http://example.com/'', [(''timeout'', Ser (JInt 30))]),
          (''GET'', ''http://example.com/'', [(''timeout'', Ser (JInt 30))])]
   \<and> delays (snd (snd (http_get_json (\<lambda>cs. Responds \<lparr> status_code = 200, ok = True,
              r_url = ''http://example.com/'', r_text = ''{not json'', r_headers = [],
              r_cookies = Map.empty, r_json = None \<rparr>)
        ''http://example.com/'' False 3 example_smart example_world))) = [2, 2, 2]
   \<and> fst (http_get_json (\<lambda>cs. Responds \<lparr> status_code = 200, ok = True,
              r_url = ''http://example.com/'', r_text = ''{not json'', r_headers = [],
              r_cookies = Map.empty, r_json = None \<rparr>)
        ''http://example.com/'' True 3 example_smart example_world) = Inl JSONDecodeError
   \<and> calls (snd (snd (http_get_json (\<lambda>cs. Responds \<lparr> status_code = 200, ok = True,
              r_url = ''http://example.com/'', r_text = ''{not json'', r_headers = [],
              r_cookies = Map.empty, r_json = None \<rparr>)
        ''http://example.com/'' True 3 example_smart example_world)))
       = [(''GET'', ''http://example.com/'', [(''timeout'', Ser (JInt 30))])]
   \<and> delays (snd (snd (http_get_json (\<lambda>cs. Responds \<lparr> status_code = 200, ok = True,
              r_url = ''http://example.com/'', r_text = ''{not json'', r_headers = [],
              r_cookies = Map.empty, r_json = None \<rparr>)
        ''http://example.com/'' True 3 example_smart example_world))) = []"
  using http_get_json_invalid_body
    [where self = example_smart and retry = 3 and w = example_world
       and url = "''http://example.com/''"
       and net = "\<lambda>cs. Responds \<lparr> status_code = 200, ok = True,
              r_url = ''http://example.com/'', r_text = ''{not json'', r_headers = [],
              r_cookies = Map.empty, r_json = None \<rparr>"]
  by (simp add: eval_nat_numeral)

text \<open>
  C3, as the claim states it, fails: in debug mode a successful response with the body
  \<^verbatim>\<open>{not json\<close> makes \<^verbatim>\<open>http_get_json\<close> raise the decode error.
\<close>

theorem http_get_json_debug_raises:
  "fst (http_get_json (\<lambda>cs. Responds \<lparr> status_code = 200, ok = True,
              r_url = ''http://example.com/'', r_text = ''{not json'', r_headers = [],
              r_cookies = Map.empty, r_json = None \<rparr>)
     ''http://example.com/'' True 3 example_smart example_world) = Inl JSONDecodeError"
  by (simp add: http_get_json_def get_def req_def req_except_def prepare_headers_def kw_get_def
      is_None_def save_req_def save_res_def Let_def eval_nat_numeral)

end
